theory Spec2Isabelle
  imports Complex_Main "HOL-Library.Word"
begin

unbundle bit_operations_syntax

section \<open>Primitives\<close>

text \<open>
  The design-token catalog of \<^verbatim>\<open>src/design/NCDS.hpp\<close>, namespace
  \<^verbatim>\<open>nzt::gui::design\<close>. Fixed-width integers are words, so the narrowing
  conversions of the source are visible as \<open>ucast\<close>.
\<close>

type_synonym uint8_t = "8 word"
type_synonym uint32_t = "32 word"

text \<open>
  \<^verbatim>\<open>float\<close>. The catalog holds float literals only and never computes with them;
  every literal is a small integer, which binary32 represents exactly, so a literal is
  modelled by the real number it denotes.
\<close>

type_synonym float32 = real

text \<open>\<^verbatim>\<open>struct Color { uint8_t r, g, b, a; ... }\<close>\<close>

record Color =
  r :: uint8_t
  g :: uint8_t
  b :: uint8_t
  a :: uint8_t

text \<open>
  The constructor \<^verbatim>\<open>Color(red, green, blue, alpha = 255)\<close>. A default argument is
  filled in at the call, so the call that omits \<^verbatim>\<open>alpha\<close> is a definition of its own.
\<close>

definition Color_ctor :: "uint8_t \<Rightarrow> uint8_t \<Rightarrow> uint8_t \<Rightarrow> uint8_t \<Rightarrow> Color" where
  "Color_ctor red green blue alpha = \<lparr> r = red, g = green, b = blue, a = alpha \<rparr>"

definition Color_ctor_default :: "uint8_t \<Rightarrow> uint8_t \<Rightarrow> uint8_t \<Rightarrow> Color" where
  "Color_ctor_default red green blue = Color_ctor red green blue 255"

text \<open>
  \<^verbatim>\<open>Color::fromHex(uint32_t hex, uint8_t alpha = 255)\<close>. Shift and mask are computed
  at 32 bits; passing the results to the constructor narrows them to \<^verbatim>\<open>uint8_t\<close>.
\<close>

definition fromHex :: "uint32_t \<Rightarrow> uint8_t \<Rightarrow> Color" where
  "fromHex hex alpha =
     Color_ctor (ucast (drop_bit 16 hex AND 0xFF))
                (ucast (drop_bit 8 hex AND 0xFF))
                (ucast (hex AND 0xFF))
                alpha"

definition fromHex_default :: "uint32_t \<Rightarrow> Color" where
  "fromHex_default hex = fromHex hex 255"

text \<open>The invariant the data model gives for a colour: each channel lies in 0..255.\<close>

definition valid_Color :: "Color \<Rightarrow> bool" where
  "valid_Color c \<longleftrightarrow>
     unat (r c) \<le> 255 \<and> unat (g c) \<le> 255 \<and> unat (b c) \<le> 255 \<and> unat (a c) \<le> 255"

text \<open>\<^verbatim>\<open>enum class FontWeight\<close> and the integer each enumerator is declared with.\<close>

datatype FontWeight = Regular | Medium | Bold

fun FontWeight_value :: "FontWeight \<Rightarrow> int" where
  "FontWeight_value Regular = 400"
| "FontWeight_value Medium = 500"
| "FontWeight_value Bold = 700"

text \<open>\<^verbatim>\<open>struct FontSpec\<close>; the field \<^verbatim>\<open>size\<close> is \<open>size_px\<close> here.\<close>

record FontSpec =
  family :: string
  size_px :: float32
  lineHeight :: float32
  weight :: FontWeight

section \<open>Foundation: colour palette\<close>

definition Red500 :: Color where "Red500 = fromHex_default 0xEC1D31"
definition Red600 :: Color where "Red600 = fromHex_default 0xCF1722"
definition Red700 :: Color where "Red700 = fromHex_default 0xB7131C"

definition White :: Color where "White = fromHex_default 0xFFFFFF"
definition Gray200 :: Color where "Gray200 = fromHex_default 0xE2E8F0"
definition Gray300 :: Color where "Gray300 = fromHex_default 0xCBD5E1"
definition Gray400 :: Color where "Gray400 = fromHex_default 0x94A3B8"
definition Gray500 :: Color where "Gray500 = fromHex_default 0x64748B"
definition Gray600 :: Color where "Gray600 = fromHex_default 0x475569"
definition Gray800 :: Color where "Gray800 = fromHex_default 0x1E293B"
definition Gray900 :: Color where "Gray900 = fromHex_default 0x0F172A"

definition Green500 :: Color where "Green500 = fromHex_default 0x22C55E"
definition Orange500 :: Color where "Orange500 = fromHex_default 0xF97316"
definition Blue500 :: Color where "Blue500 = fromHex_default 0x3B82F6"
definition Violet500 :: Color where "Violet500 = fromHex_default 0x8B5CF6"

section \<open>Foundation: typography\<close>

definition FontFamilySans :: string where "FontFamilySans = ''Commerce Sans''"
definition FontFamilyInter :: string where "FontFamilyInter = ''Inter''"

definition DisplayXL_Bold :: FontSpec where
  "DisplayXL_Bold = \<lparr> family = FontFamilySans, size_px = 48, lineHeight = 60, weight = Bold \<rparr>"
definition DisplayLG_Bold :: FontSpec where
  "DisplayLG_Bold = \<lparr> family = FontFamilySans, size_px = 36, lineHeight = 44, weight = Bold \<rparr>"
definition DisplayMD_Bold :: FontSpec where
  "DisplayMD_Bold = \<lparr> family = FontFamilySans, size_px = 30, lineHeight = 38, weight = Bold \<rparr>"

definition TextLG_Regular :: FontSpec where
  "TextLG_Regular = \<lparr> family = FontFamilyInter, size_px = 18, lineHeight = 28, weight = Regular \<rparr>"
definition TextMD_Regular :: FontSpec where
  "TextMD_Regular = \<lparr> family = FontFamilyInter, size_px = 16, lineHeight = 24, weight = Regular \<rparr>"
definition TextSM_Regular :: FontSpec where
  "TextSM_Regular = \<lparr> family = FontFamilyInter, size_px = 14, lineHeight = 20, weight = Regular \<rparr>"
definition TextXS_Regular :: FontSpec where
  "TextXS_Regular = \<lparr> family = FontFamilyInter, size_px = 12, lineHeight = 18, weight = Regular \<rparr>"

section \<open>Components: token mapping\<close>

definition BorderRadiusSmall :: float32 where "BorderRadiusSmall = 4"
definition BorderRadiusMedium :: float32 where "BorderRadiusMedium = 8"
definition BorderRadiusLarge :: float32 where "BorderRadiusLarge = 12"

record ButtonTheme =
  background :: Color
  "text" :: Color
  border :: Color
  backgroundHover :: Color
  backgroundPressed :: Color

definition ButtonPrimary :: ButtonTheme where
  "ButtonPrimary = \<lparr>
     ButtonTheme.background = Red500,
     ButtonTheme.text = White,
     ButtonTheme.border = Red500,
     backgroundHover = Red600,
     backgroundPressed = Red700 \<rparr>"


definition ButtonHeightMD :: float32 where "ButtonHeightMD = 44"
definition ButtonHeightSM :: float32 where "ButtonHeightSM = 36"
definition ButtonHeightXS :: float32 where "ButtonHeightXS = 30"

record InputTheme =
  background :: Color
  "text" :: Color
  placeholder :: Color
  border :: Color
  borderFocus :: Color
  borderError :: Color

definition InputDefault :: InputTheme where
  "InputDefault = \<lparr>
     InputTheme.background = White,
     InputTheme.text = Gray900,
     placeholder = Gray400,
     InputTheme.border = Gray200,
     borderFocus = Red500,
     borderError = Red500 \<rparr>"

definition InputHeight :: float32 where "InputHeight = 44"

record ToggleTheme =
  trackOff :: Color
  trackOn :: Color
  thumb :: Color

definition ToggleSwitch :: ToggleTheme where
  "ToggleSwitch = \<lparr> trackOff = Gray300, trackOn = Red500, thumb = White \<rparr>"

record ControlTheme =
  borderUnchecked :: Color
  backgroundChecked :: Color
  checkmark :: Color

definition CheckboxDefault :: ControlTheme where
  "CheckboxDefault = \<lparr> borderUnchecked = Gray300, backgroundChecked = Red500, checkmark = White \<rparr>"

section \<open>Bytes of a 32-bit value\<close>

lemma byte_mask: "(0xFF :: uint32_t) = mask 8"
  by (simp add: mask_eq_exp_minus_1)

lemma rgb_mask: "(0xFFFFFF :: uint32_t) = mask 24"
  by (simp add: mask_eq_exp_minus_1)

lemma and_byte: "(x :: uint32_t) AND 0xFF = take_bit 8 x"
  by (simp only: byte_mask take_bit_eq_mask)

lemma unat_and_byte: "unat ((x :: uint32_t) AND 0xFF) = unat x mod 256"
proof -
  have "unat (x AND 0xFF) = take_bit 8 (unat x)"
    by (simp only: and_byte unsigned_take_bit_eq)
  then show ?thesis
    by (simp add: take_bit_eq_mod)
qed

lemma unat_shift_byte:
  "unat (drop_bit n (x :: uint32_t) AND 0xFF) = (unat x div 2 ^ n) mod 256"
proof -
  have "unat (drop_bit n x AND 0xFF) = unat (drop_bit n x) mod 256"
    by (rule unat_and_byte)
  also have "unat (drop_bit n x) = drop_bit n (unat x)"
    by (rule unat_drop_bit_eq)
  finally show ?thesis
    by (simp add: drop_bit_eq_div)
qed

text \<open>Narrowing a masked value to eight bits loses nothing.\<close>

lemma narrow_byte:
  "unat (ucast ((x :: uint32_t) AND 0xFF) :: uint8_t) = unat (x AND 0xFF)"
  by (simp add: and_byte unsigned_ucast_eq unsigned_take_bit_eq)

lemma fromHex_sel:
  "r (fromHex hex alpha) = ucast (drop_bit 16 hex AND 0xFF)"
  "g (fromHex hex alpha) = ucast (drop_bit 8 hex AND 0xFF)"
  "b (fromHex hex alpha) = ucast (hex AND 0xFF)"
  "a (fromHex hex alpha) = alpha"
  by (simp_all add: fromHex_def Color_ctor_def)

text \<open>The channels read as numbers: the three bytes of \<open>hex\<close>, most significant first.\<close>

lemma fromHex_arith:
  "unat (r (fromHex hex alpha)) = (unat hex div 65536) mod 256"
  "unat (g (fromHex hex alpha)) = (unat hex div 256) mod 256"
  "unat (b (fromHex hex alpha)) = unat hex mod 256"
proof -
  show "unat (r (fromHex hex alpha)) = (unat hex div 65536) mod 256"
    using unat_shift_byte [of 16 hex] by (simp only: fromHex_sel narrow_byte) simp
  show "unat (g (fromHex hex alpha)) = (unat hex div 256) mod 256"
    using unat_shift_byte [of 8 hex] by (simp only: fromHex_sel narrow_byte) simp
  show "unat (b (fromHex hex alpha)) = unat hex mod 256"
    by (simp only: fromHex_sel narrow_byte unat_and_byte)
qed

lemma channel_le: "unat (x :: uint8_t) \<le> 255"
  using unsigned_less [of x, where ?'a = nat] by simp

lemmas color_defs = fromHex_default_def fromHex_def Color_ctor_def Color_ctor_default_def

lemmas red_defs = Red500_def Red600_def Red700_def

section \<open>Properties of the catalog\<close>

text \<open>
  C1. For every hex value \<open>hex\<close> and every \<open>alpha\<close>, \<open>fromHex hex alpha\<close> has red
  channel \<open>(hex >> 16) & 0xFF\<close>, green channel \<open>(hex >> 8) & 0xFF\<close>, blue channel
  \<open>hex & 0xFF\<close> and alpha channel \<open>alpha\<close>, the right-hand sides taken at 32 bits as
  the source computes them; and \<open>fromHex 0xEC1D31\<close> with the default alpha is
  \<open>Color(236, 29, 49, 255)\<close>. The statement covers all 32-bit values, the 24-bit ones
  among them.
\<close>

theorem fromHex_channels:
  "unat (r (fromHex hex alpha)) = unat (drop_bit 16 hex AND 0xFF)
   \<and> unat (g (fromHex hex alpha)) = unat (drop_bit 8 hex AND 0xFF)
   \<and> unat (b (fromHex hex alpha)) = unat (hex AND 0xFF)
   \<and> a (fromHex hex alpha) = alpha
   \<and> fromHex_default 0xEC1D31 = Color_ctor 236 29 49 255"
proof -
  have "fromHex_default 0xEC1D31 = Color_ctor 236 29 49 255"
    by (simp add: fromHex_default_def fromHex_def)
  then show ?thesis
    by (simp only: fromHex_sel narrow_byte)
qed

text \<open>
  C2. \<open>fromHex\<close> is total over all 32-bit inputs: for every \<open>hex\<close> and every \<open>alpha\<close>
  the result is a valid colour, there being no error case in the function, and the bits
  of \<open>hex\<close> above the low 24 do not matter:
  \<open>fromHex hex alpha = fromHex (hex & 0xFFFFFF) alpha\<close>.
\<close>

theorem fromHex_total_high_bits_ignored:
  "valid_Color (fromHex hex alpha) \<and> fromHex hex alpha = fromHex (hex AND 0xFFFFFF) alpha"
proof -
  have red: "take_bit 8 (drop_bit 16 (take_bit 24 hex)) = take_bit 8 (drop_bit 16 hex)"
    by (rule bit_word_eqI) (auto simp add: bit_simps)
  have green: "take_bit 8 (drop_bit 8 (take_bit 24 hex)) = take_bit 8 (drop_bit 8 hex)"
    by (rule bit_word_eqI) (auto simp add: bit_simps)
  have blue: "take_bit 8 (take_bit 24 hex) = take_bit 8 hex"
    by (rule bit_word_eqI) (auto simp add: bit_simps)
  have valid: "valid_Color (fromHex hex alpha)"
    by (simp only: valid_Color_def channel_le)
  have "fromHex hex alpha = fromHex (hex AND 0xFFFFFF) alpha"
    using red green blue by (simp only: fromHex_def and_byte rgb_mask flip: take_bit_eq_mask)
  with valid show ?thesis ..
qed

text \<open>
  C3. For all red, green and blue values, a colour constructed without an alpha argument
  has alpha exactly 255, through the constructor as well as through \<open>fromHex\<close> with the
  alpha parameter omitted.
\<close>

theorem default_alpha_255:
  "a (Color_ctor_default red green blue) = 255 \<and> a (fromHex_default hex) = 255"
  by (simp add: color_defs)



text \<open>
  C6. The font weights carry their numeric codes, \<open>Regular\<close> 400, \<open>Medium\<close> 500 and
  \<open>Bold\<close> 700, and the enumeration has no other member.
\<close>

theorem FontWeight_codes:
  "FontWeight_value Regular = 400
   \<and> FontWeight_value Medium = 500
   \<and> FontWeight_value Bold = 700
   \<and> (\<forall>w. w = Regular \<or> w = Medium \<or> w = Bold)"
proof -
  have "w = Regular \<or> w = Medium \<or> w = Bold" for w
    by (cases w) simp_all
  then show ?thesis
    by simp
qed

text \<open>
  C7. The layout scalars have their documented magnitudes and are strictly ordered:
  button heights XS 30 < SM 36 < MD 44, border radii small 4 < medium 8 < large 12.
\<close>

theorem layout_scalars_ordered:
  "ButtonHeightXS = 30 \<and> ButtonHeightSM = 36 \<and> ButtonHeightMD = 44
   \<and> ButtonHeightXS < ButtonHeightSM \<and> ButtonHeightSM < ButtonHeightMD
   \<and> BorderRadiusSmall = 4 \<and> BorderRadiusMedium = 8 \<and> BorderRadiusLarge = 12
   \<and> BorderRadiusSmall < BorderRadiusMedium \<and> BorderRadiusMedium < BorderRadiusLarge"
  by (simp add: ButtonHeightXS_def ButtonHeightSM_def ButtonHeightMD_def
      BorderRadiusSmall_def BorderRadiusMedium_def BorderRadiusLarge_def)

text \<open>
  C8, as stated: every channel of \<open>Red500\<close> is strictly greater than the same channel
  of \<open>Red600\<close>, and every channel of \<open>Red600\<close> strictly greater than that of
  \<open>Red700\<close>. A colour has four channels, and the alpha channels of the three reds are
  all 255, so the statement fails there.
\<close>

theorem reds_every_channel_decreasing_fails:
  "\<not> (r Red600 < r Red500 \<and> g Red600 < g Red500 \<and> b Red600 < b Red500 \<and> a Red600 < a Red500
      \<and> r Red700 < r Red600 \<and> g Red700 < g Red600 \<and> b Red700 < b Red600 \<and> a Red700 < a Red600)"
  by (simp add: red_defs color_defs)

text \<open>
  C8, amended: the red, green and blue channels of \<open>Red500\<close> are each strictly greater
  than those of \<open>Red600\<close>, and those of \<open>Red600\<close> each strictly greater than those of
  \<open>Red700\<close>; the alpha channels of the three are equal, all 255.
\<close>

theorem reds_rgb_decreasing_alpha_equal:
  "r Red600 < r Red500 \<and> g Red600 < g Red500 \<and> b Red600 < b Red500
   \<and> r Red700 < r Red600 \<and> g Red700 < g Red600 \<and> b Red700 < b Red600
   \<and> a Red500 = 255 \<and> a Red600 = 255 \<and> a Red700 = 255"
  by (simp add: red_defs color_defs)

text \<open>
  C9. The primary button's border equals its background; both are \<open>Red500\<close>.
\<close>

theorem ButtonPrimary_border_is_background:
  "ButtonTheme.border ButtonPrimary = ButtonTheme.background ButtonPrimary
   \<and> ButtonTheme.border ButtonPrimary = Red500
   \<and> ButtonTheme.background ButtonPrimary = Red500"
  by (simp add: ButtonPrimary_def)

text \<open>
  C10. The input theme's focus border equals its error border; both are \<open>Red500\<close>.
\<close>

theorem InputDefault_focus_is_error:
  "borderFocus InputDefault = borderError InputDefault
   \<and> borderFocus InputDefault = Red500
   \<and> borderError InputDefault = Red500"
  by (simp add: InputDefault_def)

end
